theory Spec2Isabelle
  imports Complex_Main "HOL-Library.Sublist"
begin

section \<open>Values of the report\<close>

text \<open>
  \<^verbatim>\<open>galaxy.py\<close> is a facade over one document fetched by \<^verbatim>\<open>request\<close>. Exceptions are
  values: every function of the model returns \<open>error + 'a\<close>, \<open>Inl\<close> being the exception raised.
\<close>

datatype error =
    NameError string
  | AttributeError string
  | KeyError
  | TypeError
  | IndexError
  | ValueError
  | RecursionError
  | TransportError

datatype key = KInt int | KStr string

text \<open>
  Modelled from the spec: the type of the object that \<^verbatim>\<open>request\<close> returns is declared
  outside \<^verbatim>\<open>galaxy.py\<close>. The spec describes it as a mapping from string keys to nested
  values (booleans, integers, strings, sequences, mappings). A
  finite float is kept as the rational it denotes (no float arithmetic is done on
  report values here). \<open>VObj\<close> is an opaque object known by a label and the values it was
  built from: a builtin function, a module, a class, an instance, a bound method.
\<close>

datatype val =
    VNone
  | VBool bool
  | VInt int
  | VFloat rat
  | VStr string
  | VObj string "val list"
  | VList "val list"
  | VDict "(key \<times> val) list"

text \<open>Python truthiness, as \<^verbatim>\<open>if x\<close> and \<^verbatim>\<open>not x\<close> test it.\<close>

fun truthy :: "val \<Rightarrow> bool" where
  "truthy VNone = False"
| "truthy (VBool b) = b"
| "truthy (VInt i) = (i \<noteq> 0)"
| "truthy (VFloat q) = (q \<noteq> 0)"
| "truthy (VStr s) = (s \<noteq> [])"
| "truthy (VObj n args) = True"
| "truthy (VList xs) = (xs \<noteq> [])"
| "truthy (VDict kvs) = (kvs \<noteq> [])"

text \<open>\<^verbatim>\<open>v == n\<close> for an integer literal: booleans and floats compare by their number.\<close>

fun py_eq_int :: "val \<Rightarrow> int \<Rightarrow> bool" where
  "py_eq_int (VInt i) n = (i = n)"
| "py_eq_int (VBool b) n = ((if b then 1 else 0) = n)"
| "py_eq_int (VFloat q) n = (q = of_int n)"
| "py_eq_int v n = False"

text \<open>\<^verbatim>\<open>v == s\<close> for a string literal: only a string is equal to a string.\<close>

fun py_eq_str :: "val \<Rightarrow> string \<Rightarrow> bool" where
  "py_eq_str (VStr t) s = (t = s)"
| "py_eq_str v s = False"

text \<open>
  The key an object hashes to in a mapping: \<^verbatim>\<open>True\<close> and \<^verbatim>\<open>1.0\<close> are the key \<^verbatim>\<open>1\<close>;
  any other hashable object is a key that no report holds (\<open>Inr None\<close>); lists and
  mappings are unhashable.
\<close>

fun key_of :: "val \<Rightarrow> error + key option" where
  "key_of (VInt i) = Inr (Some (KInt i))"
| "key_of (VBool b) = Inr (Some (KInt (if b then 1 else 0)))"
| "key_of (VStr s) = Inr (Some (KStr s))"
| "key_of (VFloat q) = Inr (if of_int \<lfloor>q\<rfloor> = q then Some (KInt \<lfloor>q\<rfloor>) else None)"
| "key_of VNone = Inr None"
| "key_of (VObj n args) = Inr None"
| "key_of (VList xs) = Inl TypeError"
| "key_of (VDict kvs) = Inl TypeError"

text \<open>
  \<^verbatim>\<open>seq[i]\<close>: an index from \<open>-len\<close> up to \<open>-1\<close> counts from the end; one outside
  \<open>-len .. len-1\<close> raises.
\<close>

definition index_seq :: "'a list \<Rightarrow> int \<Rightarrow> error + 'a" where
  "index_seq xs i =
     (if 0 \<le> i \<and> i < int (length xs) then Inr (xs ! nat i)
      else if i < 0 \<and> - int (length xs) \<le> i then Inr (xs ! nat (int (length xs) + i))
      else Inl IndexError)"

text \<open>\<^verbatim>\<open>obj[idx]\<close>.\<close>

fun subscript :: "val \<Rightarrow> val \<Rightarrow> error + val" where
  "subscript (VDict kvs) idx =
     (case key_of idx of
        Inl e \<Rightarrow> Inl e
      | Inr None \<Rightarrow> Inl KeyError
      | Inr (Some k) \<Rightarrow> (case map_of kvs k of None \<Rightarrow> Inl KeyError | Some v \<Rightarrow> Inr v))"
| "subscript (VList xs) idx =
     (case idx of
        VInt i \<Rightarrow> index_seq xs i
      | VBool b \<Rightarrow> index_seq xs (if b then 1 else 0)
      | _ \<Rightarrow> Inl TypeError)"
| "subscript (VStr s) idx =
     (case idx of
        VInt i \<Rightarrow> map_sum id (\<lambda>c. VStr [c]) (index_seq s i)
      | VBool b \<Rightarrow> map_sum id (\<lambda>c. VStr [c]) (index_seq s (if b then 1 else 0))
      | _ \<Rightarrow> Inl TypeError)"
| "subscript v idx = Inl TypeError"

text \<open>
  Modelled from the spec: \<^verbatim>\<open>obj.name\<close> on a value of the report. The report's type is not
  in \<^verbatim>\<open>galaxy.py\<close>. The spec has a field of a mapping read by its name, and a field that
  is absent read as no value rather than fail: an absent \<^verbatim>\<open>turn_based\<close> is false, an
  absent \<^verbatim>\<open>v\<close> is not visible. So the attribute read of a missing field gives \<^verbatim>\<open>None\<close>;
  it is the item access \<^verbatim>\<open>obj[name]\<close> of a missing key that fails (\<open>subscript\<close>). A value
  that is no mapping has no fields to read.
\<close>

fun attr_of :: "val \<Rightarrow> string \<Rightarrow> error + val" where
  "attr_of (VDict kvs) name =
     (case map_of kvs (KStr name) of None \<Rightarrow> Inr VNone | Some v \<Rightarrow> Inr v)"
| "attr_of v name = Inl (AttributeError name)"

text \<open>\<^verbatim>\<open>obj.items()\<close>: only a mapping has it.\<close>

fun items :: "val \<Rightarrow> error + (key \<times> val) list" where
  "items (VDict kvs) = Inr kvs"
| "items v = Inl (AttributeError ''items'')"

text \<open>\<^verbatim>\<open>name in obj\<close> for a string on the left.\<close>

fun py_in_str :: "string \<Rightarrow> val \<Rightarrow> error + bool" where
  "py_in_str a (VDict kvs) = Inr (KStr a \<in> fst ` set kvs)"
| "py_in_str a (VList xs) = Inr (list_ex (\<lambda>x. py_eq_str x a) xs)"
| "py_in_str a (VStr s) = Inr (sublist a s)"
| "py_in_str a v = Inl TypeError"

section \<open>Names, and the collaborator\<close>

text \<open>
  A bare name in a method body is neither an attribute of \<^verbatim>\<open>self\<close> nor of the class:
  Python looks it up among the function's locals, then in the module's namespace \<open>G\<close>
  at the time of the call, and raises \<^verbatim>\<open>NameError\<close> when it is not there. (The builtins
  \<^verbatim>\<open>id\<close>, \<^verbatim>\<open>float\<close> and \<^verbatim>\<open>getattr\<close> that the file uses are taken as not shadowed.)
\<close>

type_synonym namespace = "(string \<times> val) list"

definition load_global :: "namespace \<Rightarrow> string \<Rightarrow> error + val" where
  "load_global G name = (case map_of G name of None \<Rightarrow> Inl (NameError name) | Some v \<Rightarrow> Inr v)"

text \<open>The namespace of \<^verbatim>\<open>galaxy.py\<close> once imported: its two imports and its five classes.\<close>

definition galaxy_py :: namespace where
  "galaxy_py =
     [(''math'', VObj ''module math'' []),
      (''request'', VObj ''function request'' []),
      (''Galaxy'', VObj ''class Galaxy'' []),
      (''_HasGalaxy'', VObj ''class _HasGalaxy'' []),
      (''_HasData'', VObj ''class _HasData'' []),
      (''Fleet'', VObj ''class Fleet'' []),
      (''Star'', VObj ''class Star'' [])]"

definition builtin_id :: val where
  "builtin_id = VObj ''builtin id'' []"

text \<open>
  One call of \<^verbatim>\<open>request\<close>: its positional argument and its keyword arguments. The
  collaborator is a parameter \<open>req\<close>: what the server answers to a call, given how many
  were issued before it; \<open>None\<close> is a transport failure.
\<close>

datatype call = Call string "(string \<times> val) list"

type_synonym server = "nat \<Rightarrow> call \<Rightarrow> val option"

section \<open>Galaxy\<close>

record galaxy =
  game_number :: val
  cookies :: val
  u_report :: val

text \<open>
  The state: the Galaxy object that the code at hand refers to (\<^verbatim>\<open>self\<close>, or an
  entity's \<^verbatim>\<open>self.galaxy\<close>), and the requests issued so far.
\<close>

record world =
  galaxy :: galaxy
  issued :: "call list"

type_synonym 'a eff = "(error + 'a) \<times> world"

definition andthen :: "'a eff \<Rightarrow> ('a \<Rightarrow> world \<Rightarrow> 'b eff) \<Rightarrow> 'b eff" where
  "andthen m f = (case m of (Inl e, w) \<Rightarrow> (Inl e, w) | (Inr x, w) \<Rightarrow> f x w)"

definition lift :: "error + 'a \<Rightarrow> world \<Rightarrow> 'a eff" where
  "lift r w = (r, w)"

text \<open>\<^verbatim>\<open>_report = None\<close> is the class default that \<^verbatim>\<open>__init__\<close> leaves in place.\<close>

definition Galaxy_init :: "val \<Rightarrow> val \<Rightarrow> galaxy" where
  "Galaxy_init gn ck = \<lparr>game_number = gn, cookies = ck, u_report = VNone\<rparr>"

text \<open>
  \<^verbatim>\<open>self._report = request('order', order='full_universe_report',
                          game_number=game_number, cookies=cookies)\<close>
  The callee and the arguments are evaluated, left to right, before the call; the
  assignment happens only when the call returns.
\<close>

definition update_state :: "namespace \<Rightarrow> server \<Rightarrow> world \<Rightarrow> unit eff" where
  "update_state G req w =
     (case load_global G ''request'' of
        Inl e \<Rightarrow> (Inl e, w)
      | Inr f \<Rightarrow>
     (case load_global G ''game_number'' of
        Inl e \<Rightarrow> (Inl e, w)
      | Inr gn \<Rightarrow>
     (case load_global G ''cookies'' of
        Inl e \<Rightarrow> (Inl e, w)
      | Inr ck \<Rightarrow>
        (let c = Call ''order''
                   [(''order'', VStr ''full_universe_report''),
                    (''game_number'', gn), (''cookies'', ck)];
             w1 = w\<lparr>issued := issued w @ [c]\<rparr>
         in case req (length (issued w)) c of
              None \<Rightarrow> (Inl TransportError, w1)
            | Some r \<Rightarrow> (Inr (), w1\<lparr>galaxy := (galaxy w1)\<lparr>u_report := r\<rparr>\<rparr>)))))"

text \<open>
  \<^verbatim>\<open>if not self._report: self.update_state()
  return self._report\<close>
\<close>

definition report :: "namespace \<Rightarrow> server \<Rightarrow> world \<Rightarrow> val eff" where
  "report G req w =
     (if \<not> truthy (u_report (galaxy w))
      then andthen (update_state G req w) (\<lambda>_ w'. (Inr (u_report (galaxy w')), w'))
      else (Inr (u_report (galaxy w)), w))"

text \<open>\<^verbatim>\<open>Galaxy.__getattr__\<close>: \<^verbatim>\<open>return self.report[attr]\<close>.\<close>

definition Galaxy_getattr :: "namespace \<Rightarrow> server \<Rightarrow> string \<Rightarrow> world \<Rightarrow> val eff" where
  "Galaxy_getattr G req attr w =
     andthen (report G req w) (\<lambda>r w'. lift (subscript r (VStr attr)) w')"

text \<open>
  A property is found by the normal lookup; when its body raises \<^verbatim>\<open>AttributeError\<close>,
  Python calls the class's \<^verbatim>\<open>__getattr__\<close> with the property's name, and any other
  exception passes through. (\<^verbatim>\<open>report\<close> is a property too, but nothing in its body
  raises \<^verbatim>\<open>AttributeError\<close>: a name lookup raises \<^verbatim>\<open>NameError\<close>, the collaborator a
  transport error.)
\<close>

definition property ::
  "namespace \<Rightarrow> server \<Rightarrow> string \<Rightarrow> (val \<Rightarrow> 'a) \<Rightarrow> 'a eff \<Rightarrow> 'a eff" where
  "property G req name fwd m =
     (case m of
        (Inl (AttributeError x), w) \<Rightarrow>
          andthen (Galaxy_getattr G req name w) (\<lambda>v w'. (Inr (fwd v), w'))
      | _ \<Rightarrow> m)"

text \<open>
  \<^verbatim>\<open>if self.report.game_over: return 'finished'
  if not self.report.started: return 'not started'
  if self.report.paused: return 'paused'
  return 'running'\<close>
\<close>

definition game_state :: "namespace \<Rightarrow> server \<Rightarrow> world \<Rightarrow> val eff" where
  "game_state G req w =
     property G req ''game_state'' (\<lambda>v. v)
       (andthen (report G req w) (\<lambda>r1 w1.
        andthen (lift (attr_of r1 ''game_over'') w1) (\<lambda>go w1.
          if truthy go then (Inr (VStr ''finished''), w1)
          else
            andthen (report G req w1) (\<lambda>r2 w2.
            andthen (lift (attr_of r2 ''started'') w2) (\<lambda>st w2.
              if \<not> truthy st then (Inr (VStr ''not started''), w2)
              else
                andthen (report G req w2) (\<lambda>r3 w3.
                andthen (lift (attr_of r3 ''paused'') w3) (\<lambda>pa w3.
                  if truthy pa then (Inr (VStr ''paused''), w3)
                  else (Inr (VStr ''running''), w3))))))))"


section \<open>Entities\<close>

text \<open>
  An entity holds \<^verbatim>\<open>self.data\<close>; its \<^verbatim>\<open>self.galaxy\<close> is a reference to the Galaxy of the
  state. The keyword arguments that \<^verbatim>\<open>_HasGalaxy.__init__\<close> reads are the record
  \<open>kwargs\<close>; it ignores every other one.
\<close>

record entity =
  data :: val

record kwargs =
  kw_game_number :: "val option"
  kw_cookies :: "val option"
  kw_galaxy :: "galaxy option"

text \<open>
  \<^verbatim>\<open>if 'game_number' in kwargs or 'cookies' in kwargs:
      game_number = kwargs.pop('game_number')
      cookies = kwargs.pop('cookies')
      galaxy = Galaxy(game_number, cookies)
  else:
      galaxy = kwargs.pop('galaxy')
  self.galaxy = galaxy\<close>
\<close>

definition HasGalaxy_init :: "kwargs \<Rightarrow> world \<Rightarrow> unit eff" where
  "HasGalaxy_init kw w =
     (if kw_game_number kw \<noteq> None \<or> kw_cookies kw \<noteq> None
      then (case kw_game_number kw of
              None \<Rightarrow> (Inl KeyError, w)
            | Some gn \<Rightarrow>
                (case kw_cookies kw of
                   None \<Rightarrow> (Inl KeyError, w)
                 | Some ck \<Rightarrow> (Inr (), w\<lparr>galaxy := Galaxy_init gn ck\<rparr>)))
      else (case kw_galaxy kw of
              None \<Rightarrow> (Inl KeyError, w)
            | Some g \<Rightarrow> (Inr (), w\<lparr>galaxy := g\<rparr>)))"

text \<open>
  \<^verbatim>\<open>super(Fleet, self).__init__(**kwargs)
  self.data = self.galaxy.report.fleets[fleet_id]\<close>
\<close>

definition Fleet_init :: "namespace \<Rightarrow> server \<Rightarrow> val \<Rightarrow> kwargs \<Rightarrow> world \<Rightarrow> entity eff" where
  "Fleet_init G req fleet_id kw w =
     andthen (HasGalaxy_init kw w) (\<lambda>_ w1.
     andthen (report G req w1) (\<lambda>r w2.
     andthen (lift (attr_of r ''fleets'') w2) (\<lambda>fs w2.
     andthen (lift (subscript fs fleet_id) w2) (\<lambda>d w2.
       (Inr \<lparr>data = d\<rparr>, w2)))))"

text \<open>
  \<^verbatim>\<open>super(Star, self).__init__(**kwargs)
  self.data = self.galaxy.report.stars[star_id]\<close>
\<close>

definition Star_init :: "namespace \<Rightarrow> server \<Rightarrow> val \<Rightarrow> kwargs \<Rightarrow> world \<Rightarrow> entity eff" where
  "Star_init G req star_id kw w =
     andthen (HasGalaxy_init kw w) (\<lambda>_ w1.
     andthen (report G req w1) (\<lambda>r w2.
     andthen (lift (attr_of r ''stars'') w2) (\<lambda>ss w2.
     andthen (lift (subscript ss star_id) w2) (\<lambda>d w2.
       (Inr \<lparr>data = d\<rparr>, w2)))))"

text \<open>
  \<^verbatim>\<open>return {fleet_id: Fleet(id, galaxy=self)
          for fleet_id, fleet_data in self.report.fleets.items()}\<close>
  The name \<^verbatim>\<open>id\<close> is no variable of the comprehension: it is the builtin function. The
  property's value is the mapping of Fleet objects, or, when the body raised
  \<^verbatim>\<open>AttributeError\<close>, what \<^verbatim>\<open>Galaxy.__getattr__\<close> forwards from the report.
\<close>

datatype fleets_value = FleetDict "(key \<times> entity) list" | Forwarded val

fun fleets_loop ::
  "namespace \<Rightarrow> server \<Rightarrow> (key \<times> val) list \<Rightarrow> world \<Rightarrow> ((key \<times> entity) list) eff" where
  "fleets_loop G req [] w = (Inr [], w)"
| "fleets_loop G req ((fleet_id, fleet_data) # rest) w =
     (case Fleet_init G req builtin_id
             \<lparr>kw_game_number = None, kw_cookies = None, kw_galaxy = Some (galaxy w)\<rparr> w of
        (Inl e, w1) \<Rightarrow> (Inl e, w1)
      | (Inr f, w1) \<Rightarrow>
          (case fleets_loop G req rest w1 of
             (Inl e, w2) \<Rightarrow> (Inl e, w2)
           | (Inr fs, w2) \<Rightarrow> (Inr ((fleet_id, f) # fs), w2)))"

definition fleets :: "namespace \<Rightarrow> server \<Rightarrow> world \<Rightarrow> fleets_value eff" where
  "fleets G req w =
     property G req ''fleets'' Forwarded
       (andthen (report G req w) (\<lambda>r w1.
        andthen (lift (attr_of r ''fleets'') w1) (\<lambda>fs w1.
        andthen (lift (items fs) w1) (\<lambda>kvs w1.
        andthen (fleets_loop G req kvs w1) (\<lambda>d w2.
          (Inr (FleetDict d), w2))))))"

subsection \<open>Star\<close>

text \<open>
  The builtin \<^verbatim>\<open>float\<close> is a parameter \<open>flt\<close>: the double it parses or converts its
  argument to, or the exception it raises.
\<close>

type_synonym coercion = "val \<Rightarrow> error + rat"

definition Star_aliases :: val where
  "Star_aliases = VDict
     [(KStr ''owner'', VStr ''player''),
      (KStr ''name'', VStr ''n''),
      (KStr ''star_id'', VStr ''uid''),
      (KStr ''economy'', VStr ''e''),
      (KStr ''carriers'', VStr ''c''),
      (KStr ''garrison'', VStr ''g''),
      (KStr ''industry'', VStr ''i''),
      (KStr ''resources'', VStr ''r''),
      (KStr ''natural_resources'', VStr ''nr''),
      (KStr ''natural'', VStr ''nr''),
      (KStr ''science'', VStr ''s''),
      (KStr ''ships'', VStr ''st'')]"

text \<open>
  \<^verbatim>\<open>puid = self.data.puid
  return None if puid == -1 else Player(puid, galaxy=self.galaxy)\<close>
  No class \<^verbatim>\<open>Player\<close> is defined in the file: the name is looked up in the module's
  namespace, and what a binding of it would build is kept symbolic.
\<close>

definition Star_player :: "namespace \<Rightarrow> entity \<Rightarrow> error + val" where
  "Star_player G self =
     (case attr_of (data self) ''puid'' of
        Inl e \<Rightarrow> Inl e
      | Inr puid \<Rightarrow>
          if py_eq_int puid (- 1) then Inr VNone
          else (case load_global G ''Player'' of
                  Inl e \<Rightarrow> Inl e
                | Inr p \<Rightarrow> Inr (VObj ''instance'' [p, puid])))"

text \<open>\<^verbatim>\<open>return self.data.v == '1'\<close>\<close>

definition Star_visible :: "entity \<Rightarrow> error + val" where
  "Star_visible self =
     (case attr_of (data self) ''v'' of
        Inl e \<Rightarrow> Inl e
      | Inr v \<Rightarrow> Inr (VBool (py_eq_str v ''1'')))"

text \<open>\<^verbatim>\<open>def x(self): return float(self.data.x)\<close>, and the same for \<^verbatim>\<open>y\<close>.\<close>

definition Star_x :: "coercion \<Rightarrow> entity \<Rightarrow> error + val" where
  "Star_x flt self =
     (case attr_of (data self) ''x'' of
        Inl e \<Rightarrow> Inl e
      | Inr v \<Rightarrow> map_sum (\<lambda>e. e) VFloat (flt v))"

definition Star_y :: "coercion \<Rightarrow> entity \<Rightarrow> error + val" where
  "Star_y flt self =
     (case attr_of (data self) ''y'' of
        Inl e \<Rightarrow> Inl e
      | Inr v \<Rightarrow> map_sum (\<lambda>e. e) VFloat (flt v))"

text \<open>
  The normal lookup of a name on a Star: what the instance and the classes \<^verbatim>\<open>Star\<close>,
  \<^verbatim>\<open>_HasGalaxy\<close> and \<^verbatim>\<open>_HasData\<close> define in \<^verbatim>\<open>galaxy.py\<close>, a property being evaluated;
  \<open>None\<close> when the name is not defined there. The names that every object inherits from
  \<^verbatim>\<open>object\<close> are not field names and are left out. \<^verbatim>\<open>distance\<close> is a method:
  reading the name gives the bound method; calling it computes on IEEE doubles
  (\<^verbatim>\<open>float\<close>, \<^verbatim>\<open>**\<close>, \<^verbatim>\<open>math.sqrt\<close>, \<^verbatim>\<open>math.ceil\<close>), which this development does not
  model.
\<close>

definition Star_normal ::
  "namespace \<Rightarrow> coercion \<Rightarrow> galaxy \<Rightarrow> entity \<Rightarrow> string \<Rightarrow> (error + val) option" where
  "Star_normal G flt g self name =
     (if name = ''galaxy'' then Some (Inr (VObj ''Galaxy'' [game_number g, cookies g, u_report g]))
      else if name = ''data'' then Some (Inr (data self))
      else if name = ''aliases'' then Some (Inr Star_aliases)
      else if name = ''player'' then Some (Star_player G self)
      else if name = ''visible'' then Some (Star_visible self)
      else if name = ''x'' then Some (Star_x flt self)
      else if name = ''y'' then Some (Star_y flt self)
      else if name = ''distance'' then Some (Inr (VObj ''bound method Star.distance'' [data self]))
      else if name = ''__init__'' then Some (Inr (VObj ''bound method Star.__init__'' [data self]))
      else if name = ''__getattr__''
        then Some (Inr (VObj ''bound method _HasData.__getattr__'' [data self]))
      else None)"

subsection \<open>Field lookup\<close>

text \<open>
  \<^verbatim>\<open>def __getattr__(self, attr):
      if attr in aliases:
          return getattr(self, aliases[attr])
      return self.data[attr]\<close>
  \<open>getattr\<close> is the attribute access \<^verbatim>\<open>self.attr\<close>: the normal lookup \<open>normal\<close> of the
  entity's class first, then \<^verbatim>\<open>__getattr__\<close> when the name is not found or the property
  found raised \<^verbatim>\<open>AttributeError\<close>. The two call each other; the first argument is the depth
  of calls that the interpreter still allows, at which it raises instead of recursing.
\<close>

fun getattr ::
      "nat \<Rightarrow> namespace \<Rightarrow> (string \<Rightarrow> (error + val) option) \<Rightarrow> entity \<Rightarrow> string \<Rightarrow> error + val"
  and HasData_getattr ::
      "nat \<Rightarrow> namespace \<Rightarrow> (string \<Rightarrow> (error + val) option) \<Rightarrow> entity \<Rightarrow> string \<Rightarrow> error + val"
where
  "getattr 0 G normal self attr = Inl RecursionError"
| "getattr (Suc d) G normal self attr =
     (case normal attr of
        None \<Rightarrow> HasData_getattr d G normal self attr
      | Some (Inl (AttributeError x)) \<Rightarrow> HasData_getattr d G normal self attr
      | Some r \<Rightarrow> r)"
| "HasData_getattr d G normal self attr =
     (case load_global G ''aliases'' of
        Inl e \<Rightarrow> Inl e
      | Inr aliases \<Rightarrow>
          (case py_in_str attr aliases of
             Inl e \<Rightarrow> Inl e
           | Inr True \<Rightarrow>
               (case subscript aliases (VStr attr) of
                  Inl e \<Rightarrow> Inl e
                | Inr (VStr target) \<Rightarrow> getattr d G normal self target
                | Inr _ \<Rightarrow> Inl TypeError)
           | Inr False \<Rightarrow> subscript (data self) (VStr attr)))"

subsection \<open>Star.distance\<close>

text \<open>
  The operations on doubles are parameters, as \<^verbatim>\<open>float\<close> is: the conversion of an
  integer, \<^verbatim>\<open>-\<close>, \<^verbatim>\<open>** 2\<close>, \<^verbatim>\<open>+\<close> and \<^verbatim>\<open>math.sqrt\<close>, each giving the double of its result
  (as the rational it denotes) or the exception it raises. Integers compute exactly.
\<close>

record prims =
  int_to_double :: "int \<Rightarrow> error + rat"
  double_sub :: "rat \<Rightarrow> rat \<Rightarrow> error + rat"
  double_sq :: "rat \<Rightarrow> error + rat"
  double_add :: "rat \<Rightarrow> rat \<Rightarrow> error + rat"
  double_sqrt :: "rat \<Rightarrow> error + rat"

datatype number = NInt int | NFloat rat

definition then_e :: "error + 'a \<Rightarrow> ('a \<Rightarrow> error + 'b) \<Rightarrow> error + 'b" where
  "then_e m f = (case m of Inl e \<Rightarrow> Inl e | Inr x \<Rightarrow> f x)"

text \<open>The operand of an arithmetic operator: a boolean is an integer, a string is none.\<close>

fun number_of :: "val \<Rightarrow> error + number" where
  "number_of (VInt i) = Inr (NInt i)"
| "number_of (VBool b) = Inr (NInt (if b then 1 else 0))"
| "number_of (VFloat q) = Inr (NFloat q)"
| "number_of v = Inl TypeError"

fun to_double :: "prims \<Rightarrow> number \<Rightarrow> error + rat" where
  "to_double P (NFloat q) = Inr q"
| "to_double P (NInt i) = int_to_double P i"

text \<open>\<^verbatim>\<open>x - y\<close>, \<^verbatim>\<open>x ** 2\<close>, \<^verbatim>\<open>x + y\<close> and \<^verbatim>\<open>math.sqrt(x)\<close>.\<close>

fun num_sub :: "prims \<Rightarrow> number \<Rightarrow> number \<Rightarrow> error + number" where
  "num_sub P (NInt i) (NInt j) = Inr (NInt (i - j))"
| "num_sub P a b =
     then_e (to_double P a) (\<lambda>p.
     then_e (to_double P b) (\<lambda>q. map_sum (\<lambda>e. e) NFloat (double_sub P p q)))"

fun num_sq :: "prims \<Rightarrow> number \<Rightarrow> error + number" where
  "num_sq P (NInt i) = Inr (NInt (i * i))"
| "num_sq P (NFloat p) = map_sum (\<lambda>e. e) NFloat (double_sq P p)"

fun num_add :: "prims \<Rightarrow> number \<Rightarrow> number \<Rightarrow> error + number" where
  "num_add P (NInt i) (NInt j) = Inr (NInt (i + j))"
| "num_add P a b =
     then_e (to_double P a) (\<lambda>p.
     then_e (to_double P b) (\<lambda>q. map_sum (\<lambda>e. e) NFloat (double_add P p q)))"

definition math_sqrt :: "prims \<Rightarrow> number \<Rightarrow> error + rat" where
  "math_sqrt P a = then_e (to_double P a) (double_sqrt P)"

definition minus :: "prims \<Rightarrow> val \<Rightarrow> val \<Rightarrow> error + number" where
  "minus P x y = then_e (number_of x) (\<lambda>a. then_e (number_of y) (\<lambda>b. num_sub P a b))"

text \<open>
  \<^verbatim>\<open>dist = math.sqrt((self.x - other.x)**2 + (self.y - other.y)**2)
  if not as_level: return dist
  level = math.ceil(dist) - 3
  if level < 1: level = 1
  return level\<close>
  The name \<^verbatim>\<open>math\<close> is looked up before the argument is evaluated; \<^verbatim>\<open>self.x\<close> and the
  other three are attribute accesses. \<^verbatim>\<open>math.ceil\<close> of a double is the integer
  \<open>\<lceil>dist\<rceil>\<close> (Python 2 gives the float of that integer).
\<close>

definition Star_distance ::
  "nat \<Rightarrow> namespace \<Rightarrow> coercion \<Rightarrow> prims \<Rightarrow> galaxy \<Rightarrow> entity \<Rightarrow> entity \<Rightarrow> bool \<Rightarrow> error + val"
  where
  "Star_distance d G flt P g self other as_level =
     then_e (load_global G ''math'') (\<lambda>m.
     then_e (getattr d G (Star_normal G flt g self) self ''x'') (\<lambda>sx.
     then_e (getattr d G (Star_normal G flt g other) other ''x'') (\<lambda>ox.
     then_e (minus P sx ox) (\<lambda>dx.
     then_e (num_sq P dx) (\<lambda>dx2.
     then_e (getattr d G (Star_normal G flt g self) self ''y'') (\<lambda>sy.
     then_e (getattr d G (Star_normal G flt g other) other ''y'') (\<lambda>oy.
     then_e (minus P sy oy) (\<lambda>dy.
     then_e (num_sq P dy) (\<lambda>dy2.
     then_e (num_add P dx2 dy2) (\<lambda>s.
     then_e (math_sqrt P s) (\<lambda>dist.
       if \<not> as_level then Inr (VFloat dist)
       else
         then_e (load_global G ''math'') (\<lambda>m'.
           (let level = \<lceil>dist\<rceil> - 3
            in Inr (VInt (if level < 1 then 1 else level)))))))))))))))"

section \<open>Sample inputs\<close>

text \<open>
  A namespace in which a caller has bound the two names that \<^verbatim>\<open>update_state\<close> reads, a
  small report, two servers, and worlds: one whose Galaxy was just built, one whose Galaxy
  holds a given report.
\<close>

definition patched :: namespace where
  "patched = (''game_number'', VInt 7) # (''cookies'', VStr ''c'') # galaxy_py"

definition sol :: val where
  "sol = VDict
     [(KStr ''uid'', VInt 0), (KStr ''n'', VStr ''Sol''), (KStr ''puid'', VInt (- 1)),
      (KStr ''v'', VStr ''1''), (KStr ''x'', VStr ''1.5''), (KStr ''y'', VStr ''2'')]"

definition flagship :: val where
  "flagship = VDict
     [(KStr ''uid'', VInt 7), (KStr ''n'', VStr ''Flagship''), (KStr ''puid'', VInt 0),
      (KStr ''x'', VStr ''3''), (KStr ''y'', VStr ''4'')]"

definition universe :: val where
  "universe = VDict
     [(KStr ''game_over'', VBool False), (KStr ''started'', VBool True),
      (KStr ''paused'', VBool True), (KStr ''turn_based'', VInt 1),
      (KStr ''stars'', VDict [(KInt 0, sol)]),
      (KStr ''fleets'', VDict [(KInt 7, flagship)])]"

definition empty_server :: server where
  "empty_server n c = Some (VDict [])"

definition universe_server :: server where
  "universe_server n c = Some universe"

definition credentials :: kwargs where
  "credentials =
     \<lparr>kw_game_number = Some (VInt 1), kw_cookies = Some (VStr ''k''), kw_galaxy = None\<rparr>"

definition fresh :: world where
  "fresh = \<lparr>galaxy = Galaxy_init (VInt 1) (VStr ''k''), issued = []\<rparr>"

definition holding :: "val \<Rightarrow> world" where
  "holding r =
     \<lparr>galaxy = \<lparr>game_number = VInt 1, cookies = VStr ''k'', u_report = r\<rparr>, issued = []\<rparr>"

definition sample_float :: coercion where
  "sample_float v =
     (if v = VStr ''1.5'' then Inr (3 / 2)
      else if v = VStr ''2'' then Inr 2
      else if v = VStr ''0'' then Inr 0
      else if v = VStr ''1'' then Inr 1
      else if v = VStr ''3'' then Inr 3
      else if v = VStr ''4'' then Inr 4
      else Inl ValueError)"

text \<open>
  Three more stars, at (0, 0), (3, 4) and (1, 1), and the operations on doubles at the
  values these stars and \<open>sol\<close> lead to: there the differences, squares and sums are
  exact, and so are the roots of 0, 25 and 6.25; the double nearest the root of 2 is
  6369051672525773 / 2^52.
\<close>

definition origin :: val where
  "origin = VDict [(KStr ''uid'', VInt 1), (KStr ''x'', VStr ''0''), (KStr ''y'', VStr ''0'')]"

definition far :: val where
  "far = VDict [(KStr ''uid'', VInt 2), (KStr ''x'', VStr ''3''), (KStr ''y'', VStr ''4'')]"

definition near :: val where
  "near = VDict [(KStr ''uid'', VInt 3), (KStr ''x'', VStr ''1''), (KStr ''y'', VStr ''1'')]"

definition sample_sqrt :: "rat \<Rightarrow> error + rat" where
  "sample_sqrt q =
     (if q = 0 then Inr 0
      else if q = 25 then Inr 5
      else if q = 25 / 4 then Inr (5 / 2)
      else if q = 2 then Inr (6369051672525773 / 4503599627370496)
      else Inl ValueError)"

definition sample_prims :: prims where
  "sample_prims =
     \<lparr>int_to_double = (\<lambda>i. Inr (of_int i)),
      double_sub = (\<lambda>p q. Inr (p - q)),
      double_sq = (\<lambda>p. Inr (p * p)),
      double_add = (\<lambda>p q. Inr (p + q)),
      double_sqrt = sample_sqrt\<rparr>"

section \<open>Basic facts\<close>

lemma andthen_simps:
  "andthen (Inl e, w) f = (Inl e, w)"
  "andthen (Inr x, w) f = f x w"
  by (simp_all add: andthen_def)

lemma andthen_Inr:
  "andthen m f = (Inr y, w') \<Longrightarrow> \<exists>x w1. m = (Inr x, w1) \<and> f x w1 = (Inr y, w')"
  by (cases m) (auto simp: andthen_def split: sum.splits)

lemma py_eq_str_iff: "py_eq_str v s = (v = VStr s)"
  by (cases v) auto

lemma py_eq_int_one: "py_eq_int v 1 = (v = VInt 1 \<or> v = VBool True \<or> v = VFloat 1)"
  by (cases v) auto

lemma then_e_simps:
  "then_e (Inl e) f = Inl e"
  "then_e (Inr x) f = f x"
  by (simp_all add: then_e_def)

text \<open>A value with a field that holds something is a non-empty mapping, so it is truthy.\<close>

lemma attr_of_truthy: "attr_of r name = Inr v \<Longrightarrow> v \<noteq> VNone \<Longrightarrow> truthy r"
  by (cases r) (auto split: option.splits)

lemma report_held:
  "truthy (u_report (galaxy w)) \<Longrightarrow> report G req w = (Inr (u_report (galaxy w)), w)"
  by (simp add: report_def)

lemma report_fresh:
  "report G req (w\<lparr>galaxy := Galaxy_init gn ck\<rparr>) =
     andthen (update_state G req (w\<lparr>galaxy := Galaxy_init gn ck\<rparr>))
       (\<lambda>u w'. (Inr (u_report (galaxy w')), w'))"
  by (simp add: report_def Galaxy_init_def)

text \<open>
  The three ways \<^verbatim>\<open>update_state\<close> ends: a name is unbound and nothing was sent; the
  request was sent and failed; the request was sent and its answer stored.
\<close>

lemma update_state_cases:
  "update_state G req w = (r, w1) \<Longrightarrow>
     (w1 = w \<and> (\<exists>n. r = Inl (NameError n))) \<or>
     (length (issued w1) = length (issued w) + 1 \<and> galaxy w1 = galaxy w \<and>
        r = Inl TransportError) \<or>
     (length (issued w1) = length (issued w) + 1 \<and> r = Inr ())"
  by (auto simp: update_state_def load_global_def Let_def split: sum.splits option.splits)

lemma HasGalaxy_init_credentials:
  "kw_game_number kw = Some gn \<Longrightarrow> kw_cookies kw = Some ck \<Longrightarrow>
   HasGalaxy_init kw w = (Inr (), w\<lparr>galaxy := Galaxy_init gn ck\<rparr>)"
  by (simp add: HasGalaxy_init_def)

lemmas samples = patched_def galaxy_py_def sol_def flagship_def universe_def empty_server_def
  universe_server_def credentials_def fresh_def holding_def sample_float_def Galaxy_init_def
  origin_def far_def near_def sample_sqrt_def sample_prims_def

section \<open>update_state\<close>

text \<open>
  C6. \<^verbatim>\<open>update_state()\<close> should fetch with the Galaxy's own \<^verbatim>\<open>game_number\<close> and
  \<^verbatim>\<open>cookies\<close> and replace the held report. Its body names \<^verbatim>\<open>game_number\<close> and \<^verbatim>\<open>cookies\<close>
  bare, not as attributes of \<^verbatim>\<open>self\<close>: in the module as imported, for every Galaxy and
  every server, the call raises \<^verbatim>\<open>NameError\<close> before any request is issued, and the held
  report stays as it was.
\<close>

theorem update_state_as_imported:
  "update_state galaxy_py req w = (Inl (NameError ''game_number''), w)"
  by (simp add: update_state_def load_global_def galaxy_py_def)

theorem update_state_as_imported_witness:
  "update_state galaxy_py universe_server fresh = (Inl (NameError ''game_number''), fresh)"
  using update_state_as_imported [of universe_server fresh] by simp

text \<open>
  Where a caller has bound the two names in the module, the request carries those
  bindings, whatever the Galaxy itself stores.
\<close>

lemma update_state_patched:
  "update_state patched universe_server fresh =
     (Inr (), fresh\<lparr>galaxy := (galaxy fresh)\<lparr>u_report := universe\<rparr>,
        issued := [Call ''order'' [(''order'', VStr ''full_universe_report''),
                                   (''game_number'', VInt 7), (''cookies'', VStr ''c'')]]\<rparr>)"
  by (simp add: update_state_def load_global_def samples)

section \<open>The cached report\<close>

text \<open>
  C1. The first access of \<^verbatim>\<open>report\<close> should fetch once and return the fetched report.
  The property does call \<^verbatim>\<open>update_state\<close> when no truthy report is held, and that call is
  the one that reads \<^verbatim>\<open>game_number\<close> and \<^verbatim>\<open>cookies\<close> bare: in the module as imported, on
  every Galaxy that holds no report (a new one, above all) and with every server, the
  access raises \<^verbatim>\<open>NameError\<close>, issues no request, returns no report and leaves the Galaxy
  as it was, however often it is repeated.
\<close>

theorem report_as_imported:
  "\<not> truthy (u_report (galaxy w)) \<Longrightarrow>
   report galaxy_py req w = (Inl (NameError ''game_number''), w)"
  by (simp add: report_def update_state_def load_global_def galaxy_py_def andthen_def)

theorem report_as_imported_witness:
  "report galaxy_py universe_server fresh = (Inl (NameError ''game_number''), fresh)"
  using report_as_imported [of fresh universe_server]
  by (simp add: fresh_def Galaxy_init_def)

text \<open>
  The caching itself is as described, in every namespace: a report that is held and
  truthy is returned as it is, with no request and no change; and an access that returns
  a truthy report has issued at most one request and left that report held.
\<close>

lemma report_stable:
  assumes "report G req w = (Inr r, w1)" and "truthy r"
  shows "u_report (galaxy w1) = r \<and> report G req w1 = (Inr r, w1) \<and>
         length (issued w1) \<le> Suc (length (issued w))"
proof (cases "truthy (u_report (galaxy w))")
  case True
  with assms show ?thesis by (auto simp: report_def)
next
  case False
  then have eq: "report G req w =
        andthen (update_state G req w) (\<lambda>u w'. (Inr (u_report (galaxy w')), w'))"
    by (simp add: report_def)
  obtain x w' where u: "update_state G req w = (x, w')" by (cases "update_state G req w")
  from assms(1) eq u have x: "x = Inr ()" "w1 = w'" "r = u_report (galaxy w')"
    by (cases x; simp add: andthen_simps)+
  from update_state_cases [OF u] x have "length (issued w1) = length (issued w) + 1"
    by auto
  with x assms(2) show ?thesis by (simp add: report_def)
qed

section \<open>game_state\<close>

text \<open>
  C2. On a Galaxy that holds a report, \<^verbatim>\<open>game_state\<close> reads \<^verbatim>\<open>game_over\<close>, then
  \<^verbatim>\<open>started\<close>, then \<^verbatim>\<open>paused\<close>, and the first test that succeeds decides: 'finished' when
  \<^verbatim>\<open>game_over\<close> is true, whatever the other two are (they are not even read); 'not started'
  when \<^verbatim>\<open>game_over\<close> is false and \<^verbatim>\<open>started\<close> is false; 'paused' when \<^verbatim>\<open>game_over\<close> is
  false and \<^verbatim>\<open>started\<close> and \<^verbatim>\<open>paused\<close> are true; 'running' otherwise. The state is left as
  it was. (A flag is true as \<^verbatim>\<open>if\<close> tests it; on booleans, \<open>truthy (VBool b) = b\<close>. That
  the held report is truthy says that a report is held: every mapping with a field is.
  A flag that the report lacks reads \<^verbatim>\<open>None\<close>, which is false.)
\<close>

theorem game_state_order:
  assumes "truthy (u_report (galaxy w))"
    and "attr_of (u_report (galaxy w)) ''game_over'' = Inr go"
    and "\<not> truthy go \<Longrightarrow> attr_of (u_report (galaxy w)) ''started'' = Inr st"
    and "\<not> truthy go \<Longrightarrow> truthy st \<Longrightarrow> attr_of (u_report (galaxy w)) ''paused'' = Inr pa"
  shows "game_state G req w =
     (Inr (VStr (if truthy go then ''finished''
                 else if \<not> truthy st then ''not started''
                 else if truthy pa then ''paused''
                 else ''running'')), w)"
proof -
  have h: "report G req w = (Inr (u_report (galaxy w)), w)"
    using assms(1) by (rule report_held)
  show ?thesis
    using assms(2-) by (simp add: game_state_def property_def h andthen_simps lift_def)
qed

theorem game_state_order_witness:
  "game_state galaxy_py empty_server (holding universe)
     = (Inr (VStr ''paused''), holding universe)
   \<and> game_state galaxy_py empty_server
        (holding (VDict [(KStr ''game_over'', VBool True), (KStr ''paused'', VBool True)]))
      = (Inr (VStr ''finished''),
         holding (VDict [(KStr ''game_over'', VBool True), (KStr ''paused'', VBool True)]))"
proof -
  have 1: "game_state galaxy_py empty_server (holding universe)
             = (Inr (VStr ''paused''), holding universe)"
    using game_state_order [of "holding universe" "VBool False" "VBool True" "VBool True"
        galaxy_py empty_server]
    by (simp add: holding_def universe_def)
  have 2: "game_state galaxy_py empty_server
        (holding (VDict [(KStr ''game_over'', VBool True), (KStr ''paused'', VBool True)]))
      = (Inr (VStr ''finished''),
         holding (VDict [(KStr ''game_over'', VBool True), (KStr ''paused'', VBool True)]))"
    using game_state_order
      [of "holding (VDict [(KStr ''game_over'', VBool True), (KStr ''paused'', VBool True)])"
        "VBool True" VNone VNone galaxy_py empty_server]
    by (simp add: holding_def)
  from 1 2 show ?thesis by simp
qed

section \<open>turn_based\<close>



section \<open>fleets\<close>

text \<open>
  C5. \<^verbatim>\<open>fleets\<close> should map each fleet id of the report to the Fleet of that id. The
  comprehension builds \<^verbatim>\<open>Fleet(id, galaxy=self)\<close>: \<^verbatim>\<open>id\<close> is the builtin function, not the
  loop's \<^verbatim>\<open>fleet_id\<close>, and no mapping of the report has it as a key. So on every Galaxy
  whose report holds at least one fleet, in any namespace and with any server, reading
  \<^verbatim>\<open>fleets\<close> raises \<^verbatim>\<open>KeyError\<close> at the first fleet and returns no mapping.
\<close>

theorem fleets_as_written:
  assumes "attr_of (u_report (galaxy w)) ''fleets'' = Inr (VDict (kv # kvs))"
  shows "fleets G req w = (Inl KeyError, w)"
proof -
  have h: "report G req w = (Inr (u_report (galaxy w)), w)"
    using attr_of_truthy [OF assms] by (intro report_held) simp
  have g: "HasGalaxy_init
             \<lparr>kw_game_number = None, kw_cookies = None, kw_galaxy = Some (galaxy w)\<rparr> w
             = (Inr (), w)"
    by (simp add: HasGalaxy_init_def)
  have f: "Fleet_init G req builtin_id
             \<lparr>kw_game_number = None, kw_cookies = None, kw_galaxy = Some (galaxy w)\<rparr> w
           = (Inl KeyError, w)"
    using assms by (simp add: Fleet_init_def g h andthen_simps lift_def builtin_id_def)
  have l: "fleets_loop G req (kv # kvs) w = (Inl KeyError, w)"
    by (cases kv) (simp add: f)
  show ?thesis
    using assms by (simp add: fleets_def property_def h l andthen_simps lift_def)
qed

theorem fleets_as_written_witness:
  "fleets galaxy_py empty_server (holding universe) = (Inl KeyError, holding universe)"
  using fleets_as_written [of "holding universe" "(KInt 7, flagship)" "[]" galaxy_py empty_server]
  by (simp add: holding_def universe_def)

text \<open>Only a report with no fleet at all gets a mapping back: the empty one.\<close>

lemma fleets_none_visible:
  "attr_of (u_report (galaxy w)) ''fleets'' = Inr (VDict []) \<Longrightarrow>
   fleets G req w = (Inr (FleetDict []), w)"
  using report_held [of w G req] attr_of_truthy [of "u_report (galaxy w)" "''fleets''" "VDict []"]
  by (simp add: fleets_def property_def andthen_simps lift_def)

section \<open>Construction from raw credentials\<close>

text \<open>
  C9, as the code has it. A Star or a Fleet built from \<^verbatim>\<open>game_number\<close> and \<^verbatim>\<open>cookies\<close>
  makes its private Galaxy and reads that Galaxy's \<^verbatim>\<open>report\<close> in the constructor itself,
  to take \<^verbatim>\<open>self.data\<close> from it: the constructor is \<^verbatim>\<open>update_state\<close> on the new Galaxy,
  followed by the lookup of the entity's data. So a construction that returns an entity
  has issued exactly one request before returning; nothing is left for the first field
  access to fetch.
\<close>

theorem construction_fetches:
  assumes "kw_game_number kw = Some gn" and "kw_cookies kw = Some ck"
  shows "Star_init G req i kw w =
           andthen (update_state G req (w\<lparr>galaxy := Galaxy_init gn ck\<rparr>)) (\<lambda>u w1.
           andthen (lift (attr_of (u_report (galaxy w1)) ''stars'') w1) (\<lambda>ss w2.
           andthen (lift (subscript ss i) w2) (\<lambda>d w2. (Inr \<lparr>data = d\<rparr>, w2))))
       \<and> Fleet_init G req i kw w =
           andthen (update_state G req (w\<lparr>galaxy := Galaxy_init gn ck\<rparr>)) (\<lambda>u w1.
           andthen (lift (attr_of (u_report (galaxy w1)) ''fleets'') w1) (\<lambda>fs w2.
           andthen (lift (subscript fs i) w2) (\<lambda>d w2. (Inr \<lparr>data = d\<rparr>, w2))))
       \<and> (Star_init G req i kw w = (Inr e, w') \<longrightarrow>
            length (issued w') = Suc (length (issued w)))
       \<and> (Fleet_init G req i kw w = (Inr e, w') \<longrightarrow>
            length (issued w') = Suc (length (issued w)))"
proof -
  let ?w0 = "w\<lparr>galaxy := Galaxy_init gn ck\<rparr>"
  have s: "Star_init G req i kw w =
           andthen (update_state G req ?w0) (\<lambda>u w1.
           andthen (lift (attr_of (u_report (galaxy w1)) ''stars'') w1) (\<lambda>ss w2.
           andthen (lift (subscript ss i) w2) (\<lambda>d w2. (Inr \<lparr>data = d\<rparr>, w2))))"
    unfolding Star_init_def HasGalaxy_init_credentials [OF assms] andthen_simps report_fresh
    by (cases "update_state G req ?w0") (auto simp: andthen_def split: sum.splits)
  have f: "Fleet_init G req i kw w =
           andthen (update_state G req ?w0) (\<lambda>u w1.
           andthen (lift (attr_of (u_report (galaxy w1)) ''fleets'') w1) (\<lambda>fs w2.
           andthen (lift (subscript fs i) w2) (\<lambda>d w2. (Inr \<lparr>data = d\<rparr>, w2))))"
    unfolding Fleet_init_def HasGalaxy_init_credentials [OF assms] andthen_simps report_fresh
    by (cases "update_state G req ?w0") (auto simp: andthen_def split: sum.splits)
  have count: "length (issued w') = Suc (length (issued w))"
    if "andthen (update_state G req ?w0) (\<lambda>u w1.
           andthen (lift (attr_of (u_report (galaxy w1)) name) w1) (\<lambda>ss w2.
           andthen (lift (subscript ss i) w2) (\<lambda>d w2. (Inr \<lparr>data = d\<rparr>, w2)))) = (Inr e, w')"
    for name
  proof -
    from andthen_Inr [OF that] obtain u w1 where
      u: "update_state G req ?w0 = (Inr u, w1)" and
      r: "andthen (lift (attr_of (u_report (galaxy w1)) name) w1) (\<lambda>ss w2.
           andthen (lift (subscript ss i) w2) (\<lambda>d w2. (Inr \<lparr>data = d\<rparr>, w2))) = (Inr e, w')"
      by blast
    from r have "w' = w1"
      by (auto simp: andthen_def lift_def split: sum.splits)
    moreover from update_state_cases [OF u] have "length (issued w1) = length (issued ?w0) + 1"
      by auto
    ultimately show ?thesis by simp
  qed
  from s f count [of "''stars''"] count [of "''fleets''"] show ?thesis by simp
qed

theorem construction_fetches_witness:
  "Star_init patched universe_server (VInt 0) credentials fresh
     = (Inr \<lparr>data = sol\<rparr>,
        fresh\<lparr>galaxy := (galaxy fresh)\<lparr>u_report := universe\<rparr>,
          issued := [Call ''order'' [(''order'', VStr ''full_universe_report''),
                                     (''game_number'', VInt 7), (''cookies'', VStr ''c'')]]\<rparr>)
   \<and> length (issued (snd (Star_init patched universe_server (VInt 0) credentials fresh))) = 1"
proof -
  let ?w1 = "fresh\<lparr>galaxy := (galaxy fresh)\<lparr>u_report := universe\<rparr>,
          issued := [Call ''order'' [(''order'', VStr ''full_universe_report''),
                                     (''game_number'', VInt 7), (''cookies'', VStr ''c'')]]\<rparr>"
  have u: "update_state patched universe_server
             (fresh\<lparr>galaxy := Galaxy_init (VInt 1) (VStr ''k'')\<rparr>) = (Inr (), ?w1)"
    by (simp add: update_state_def load_global_def samples)
  have k: "kw_game_number credentials = Some (VInt 1)" "kw_cookies credentials = Some (VStr ''k'')"
    by (simp_all add: credentials_def)
  have a: "Star_init patched universe_server (VInt 0) credentials fresh
             = (Inr \<lparr>data = sol\<rparr>, ?w1)"
    using construction_fetches [OF k, of patched universe_server "VInt 0" fresh]
    by (simp add: u andthen_simps lift_def universe_def)
  from construction_fetches [OF k, of patched universe_server "VInt 0" fresh "\<lparr>data = sol\<rparr>" ?w1] a
  show ?thesis by (simp add: fresh_def)
qed

text \<open>
  Against C9 as stated: where \<^verbatim>\<open>update_state\<close> can run, the construction of a Star and of
  a Fleet from raw credentials has issued its request when it returns (and with the
  module's bindings 7 and 'c', not the credentials 1 and 'k' that were passed); in the
  module as imported the construction itself fails, in \<^verbatim>\<open>update_state\<close>, so there is no
  entity whose first field access could fetch.
\<close>

theorem construction_counterexample:
  "Star_init patched universe_server (VInt 0) credentials fresh
     = (Inr \<lparr>data = sol\<rparr>,
        fresh\<lparr>galaxy := (galaxy fresh)\<lparr>u_report := universe\<rparr>,
          issued := [Call ''order'' [(''order'', VStr ''full_universe_report''),
                                     (''game_number'', VInt 7), (''cookies'', VStr ''c'')]]\<rparr>)
   \<and> Fleet_init patched universe_server (VInt 7) credentials fresh
     = (Inr \<lparr>data = flagship\<rparr>,
        fresh\<lparr>galaxy := (galaxy fresh)\<lparr>u_report := universe\<rparr>,
          issued := [Call ''order'' [(''order'', VStr ''full_universe_report''),
                                     (''game_number'', VInt 7), (''cookies'', VStr ''c'')]]\<rparr>)
   \<and> Star_init galaxy_py universe_server (VInt 0) credentials fresh
     = (Inl (NameError ''game_number''), fresh)"
  by (simp add: Star_init_def Fleet_init_def HasGalaxy_init_def report_def update_state_def
      load_global_def andthen_def lift_def samples)

section \<open>Field lookup\<close>

text \<open>
  C4. A name that the entity's class does not define should resolve through the alias
  table, then through the data. \<^verbatim>\<open>_HasData.__getattr__\<close> names the table \<^verbatim>\<open>aliases\<close> bare,
  not \<^verbatim>\<open>self.aliases\<close>: in the module as imported, for every entity of every class (its
  normal lookup being \<open>normal\<close>), every name that the normal lookup does not find, and
  every property that raises \<^verbatim>\<open>AttributeError\<close>, ends in \<^verbatim>\<open>NameError\<close>: no alias is
  followed and no field of the data is returned.
\<close>

theorem lookup_as_imported:
  assumes "normal attr = None \<or> normal attr = Some (Inl (AttributeError x))"
  shows "getattr (Suc d) galaxy_py normal self attr = Inl (NameError ''aliases'')"
  using assms by (auto simp: load_global_def galaxy_py_def)

theorem lookup_as_imported_witness:
  "getattr 1 galaxy_py (Star_normal galaxy_py sample_float (galaxy fresh) \<lparr>data = sol\<rparr>)
      \<lparr>data = sol\<rparr> ''name'' = Inl (NameError ''aliases'')
   \<and> getattr 1 galaxy_py (Star_normal galaxy_py sample_float (galaxy fresh) \<lparr>data = sol\<rparr>)
      \<lparr>data = sol\<rparr> ''n'' = Inl (NameError ''aliases'')
   \<and> attr_of sol ''n'' = Inr (VStr ''Sol'')"
  using lookup_as_imported
      [of "Star_normal galaxy_py sample_float (galaxy fresh) \<lparr>data = sol\<rparr>" "''name''" _ 0
        "\<lparr>data = sol\<rparr>"]
    lookup_as_imported
      [of "Star_normal galaxy_py sample_float (galaxy fresh) \<lparr>data = sol\<rparr>" "''n''" _ 0
        "\<lparr>data = sol\<rparr>"]
  by (simp add: Star_normal_def sol_def)

text \<open>
  The first step of the precedence does hold: a name with an accessor never reaches
  \<^verbatim>\<open>__getattr__\<close>, and \<^verbatim>\<open>x\<close>, stored as the string '1.5', reads as the float.
\<close>

lemma Star_x_sample:
  "getattr 1 galaxy_py (Star_normal galaxy_py sample_float (galaxy fresh) \<lparr>data = sol\<rparr>)
      \<lparr>data = sol\<rparr> ''x'' = Inr (VFloat (3 / 2))"
  by (simp add: Star_normal_def Star_x_def sol_def sample_float_def)

text \<open>
  With the table bound under the bare name, the lookup is the one described: alias,
  then data, then failure.
\<close>

lemma lookup_with_aliases_bound:
  "getattr 3 ((''aliases'', Star_aliases) # galaxy_py)
      (Star_normal galaxy_py sample_float (galaxy fresh) \<lparr>data = sol\<rparr>) \<lparr>data = sol\<rparr> ''name''
     = Inr (VStr ''Sol'')
   \<and> getattr 3 ((''aliases'', Star_aliases) # galaxy_py)
      (Star_normal galaxy_py sample_float (galaxy fresh) \<lparr>data = sol\<rparr>) \<lparr>data = sol\<rparr> ''uid''
     = Inr (VInt 0)
   \<and> getattr 3 ((''aliases'', Star_aliases) # galaxy_py)
      (Star_normal galaxy_py sample_float (galaxy fresh) \<lparr>data = sol\<rparr>) \<lparr>data = sol\<rparr> ''colour''
     = Inl KeyError"
  by (simp add: Star_normal_def Star_aliases_def load_global_def galaxy_py_def sol_def
      numeral_3_eq_3)

section \<open>Star.visible\<close>

text \<open>
  C7. For every Star whose data stores a value under \<^verbatim>\<open>v\<close>, reading \<^verbatim>\<open>visible\<close> gives
  true exactly when that value is the string '1', and false for every other value: the
  string '0', the integer 1, anything else. (A Star with no \<^verbatim>\<open>v\<close> reads \<^verbatim>\<open>None\<close> there,
  which is not '1' either.)
\<close>

theorem visible_sentinel:
  "attr_of (data self) ''v'' = Inr v \<Longrightarrow>
   getattr (Suc d) G (Star_normal G flt g self) self ''visible'' = Inr (VBool (v = VStr ''1''))"
  by (simp add: Star_normal_def Star_visible_def py_eq_str_iff)

theorem visible_sentinel_witness:
  "getattr 1 galaxy_py (Star_normal galaxy_py sample_float (galaxy fresh) \<lparr>data = sol\<rparr>)
      \<lparr>data = sol\<rparr> ''visible'' = Inr (VBool True)
   \<and> getattr 1 galaxy_py
        (Star_normal galaxy_py sample_float (galaxy fresh)
           \<lparr>data = VDict [(KStr ''v'', VStr ''0'')]\<rparr>)
        \<lparr>data = VDict [(KStr ''v'', VStr ''0'')]\<rparr> ''visible'' = Inr (VBool False)
   \<and> getattr 1 galaxy_py
        (Star_normal galaxy_py sample_float (galaxy fresh)
           \<lparr>data = VDict [(KStr ''v'', VInt 1)]\<rparr>)
        \<lparr>data = VDict [(KStr ''v'', VInt 1)]\<rparr> ''visible'' = Inr (VBool False)"
  using visible_sentinel [of "\<lparr>data = sol\<rparr>" "VStr ''1''" 0 galaxy_py sample_float "galaxy fresh"]
    visible_sentinel [of "\<lparr>data = VDict [(KStr ''v'', VStr ''0'')]\<rparr>" "VStr ''0''" 0 galaxy_py
      sample_float "galaxy fresh"]
    visible_sentinel [of "\<lparr>data = VDict [(KStr ''v'', VInt 1)]\<rparr>" "VInt 1" 0 galaxy_py
      sample_float "galaxy fresh"]
  by (simp add: sol_def)

lemma visible_without_v:
  "getattr 1 galaxy_py (Star_normal galaxy_py sample_float (galaxy fresh) \<lparr>data = origin\<rparr>)
      \<lparr>data = origin\<rparr> ''visible'' = Inr (VBool False)"
  by (simp add: Star_normal_def Star_visible_def origin_def)

section \<open>Star.distance\<close>

lemma getattr_x:
  "Star_x flt a = Inr (VFloat q) \<Longrightarrow>
   getattr (Suc d) G (Star_normal G flt g a) a ''x'' = Inr (VFloat q)"
  by (simp add: Star_normal_def)

lemma getattr_y:
  "Star_y flt a = Inr (VFloat q) \<Longrightarrow>
   getattr (Suc d) G (Star_normal G flt g a) a ''y'' = Inr (VFloat q)"
  by (simp add: Star_normal_def)

text \<open>On two doubles, the square of the difference is the primitives' own.\<close>

lemma sq_diff_double:
  "then_e (minus P (VFloat p) (VFloat q)) (num_sq P) =
     map_sum (\<lambda>e. e) NFloat (then_e (double_sub P p q) (double_sq P))"
  by (cases "double_sub P p q") (simp_all add: minus_def then_e_simps)

text \<open>
  C3. For every pair of stars whose coordinates read as floats, \<^verbatim>\<open>a.distance(b)\<close> is, in
  double arithmetic, the root of the sum of the squares of the two coordinate
  differences; with \<^verbatim>\<open>as_level\<close> it is the ceiling of that distance less 3, and 1 where
  that is below 1.
\<close>

theorem distance_value:
  assumes "load_global G ''math'' = Inr m"
    and "Star_x flt a = Inr (VFloat xa)" and "Star_x flt b = Inr (VFloat xb)"
    and "Star_y flt a = Inr (VFloat ya)" and "Star_y flt b = Inr (VFloat yb)"
    and "double_sub P xa xb = Inr dx" and "double_sq P dx = Inr dx2"
    and "double_sub P ya yb = Inr dy" and "double_sq P dy = Inr dy2"
    and "double_add P dx2 dy2 = Inr s" and "double_sqrt P s = Inr r"
  shows "Star_distance (Suc d) G flt P g a b False = Inr (VFloat r)
       \<and> Star_distance (Suc d) G flt P g a b True = Inr (VInt (max 1 (\<lceil>r\<rceil> - 3)))"
proof -
  have x: "then_e (minus P (VFloat xa) (VFloat xb)) (num_sq P) = Inr (NFloat dx2)"
    by (simp add: sq_diff_double assms then_e_simps)
  have y: "then_e (minus P (VFloat ya) (VFloat yb)) (num_sq P) = Inr (NFloat dy2)"
    by (simp add: sq_diff_double assms then_e_simps)
  from x obtain nx where nx: "minus P (VFloat xa) (VFloat xb) = Inr nx" "num_sq P nx = Inr (NFloat dx2)"
    by (cases "minus P (VFloat xa) (VFloat xb)") (simp_all add: then_e_simps)
  from y obtain ny where ny: "minus P (VFloat ya) (VFloat yb) = Inr ny" "num_sq P ny = Inr (NFloat dy2)"
    by (cases "minus P (VFloat ya) (VFloat yb)") (simp_all add: then_e_simps)
  show ?thesis
    unfolding Star_distance_def
    by (simp add: assms(1) getattr_x [OF assms(2)] getattr_x [OF assms(3)]
        getattr_y [OF assms(4)] getattr_y [OF assms(5)] nx ny assms(10,11) math_sqrt_def
        then_e_simps Let_def max_def del: getattr.simps)
qed

theorem distance_value_witness:
  "Star_distance 1 galaxy_py sample_float sample_prims (galaxy fresh)
      \<lparr>data = origin\<rparr> \<lparr>data = far\<rparr> False = Inr (VFloat 5)
   \<and> Star_distance 1 galaxy_py sample_float sample_prims (galaxy fresh)
      \<lparr>data = origin\<rparr> \<lparr>data = far\<rparr> True = Inr (VInt 2)
   \<and> Star_distance 1 galaxy_py sample_float sample_prims (galaxy fresh)
      \<lparr>data = origin\<rparr> \<lparr>data = near\<rparr> True = Inr (VInt 1)"
proof -
  have m: "load_global galaxy_py ''math'' = Inr (VObj ''module math'' [])"
    by (simp add: load_global_def galaxy_py_def)
  have 1: "Star_distance 1 galaxy_py sample_float sample_prims (galaxy fresh)
      \<lparr>data = origin\<rparr> \<lparr>data = far\<rparr> False = Inr (VFloat 5)
   \<and> Star_distance 1 galaxy_py sample_float sample_prims (galaxy fresh)
      \<lparr>data = origin\<rparr> \<lparr>data = far\<rparr> True = Inr (VInt 2)"
    using distance_value [OF m, of sample_float "\<lparr>data = origin\<rparr>" 0 "\<lparr>data = far\<rparr>" 3 0 4
        sample_prims "- 3" 9 "- 4" 16 25 5 0 "galaxy fresh"]
    by (simp add: Star_x_def Star_y_def samples)
  have 2: "Star_distance 1 galaxy_py sample_float sample_prims (galaxy fresh)
      \<lparr>data = origin\<rparr> \<lparr>data = near\<rparr> True = Inr (VInt 1)"
    using distance_value [OF m, of sample_float "\<lparr>data = origin\<rparr>" 0 "\<lparr>data = near\<rparr>" 1 0 1
        sample_prims "- 1" 1 "- 1" 1 2 "6369051672525773 / 4503599627370496" 0 "galaxy fresh"]
    by (simp add: Star_x_def Star_y_def samples)
  from 1 2 show ?thesis by simp
qed

text \<open>
  The two examples, for any primitives that are exact where doubles are: at (0, 0) and
  (3, 4) the distance is 5 and the level 2; at (0, 0) and (1, 1) the root of 2, a double
  between 1 and 2, gives the level 1.
\<close>

lemma distance_example_3_4:
  assumes "load_global G ''math'' = Inr m"
    and "Star_x flt a = Inr (VFloat 0)" and "Star_y flt a = Inr (VFloat 0)"
    and "Star_x flt b = Inr (VFloat 3)" and "Star_y flt b = Inr (VFloat 4)"
    and "double_sub P 0 3 = Inr (- 3)" and "double_sq P (- 3) = Inr 9"
    and "double_sub P 0 4 = Inr (- 4)" and "double_sq P (- 4) = Inr 16"
    and "double_add P 9 16 = Inr 25" and "double_sqrt P 25 = Inr 5"
  shows "Star_distance (Suc d) G flt P g a b False = Inr (VFloat 5)
       \<and> Star_distance (Suc d) G flt P g a b True = Inr (VInt 2)"
proof -
  have x: "then_e (minus P (VFloat 0) (VFloat 3)) (num_sq P) = Inr (NFloat 9)"
    by (simp add: sq_diff_double assms then_e_simps)
  have y: "then_e (minus P (VFloat 0) (VFloat 4)) (num_sq P) = Inr (NFloat 16)"
    by (simp add: sq_diff_double assms then_e_simps)
  from x obtain nx where nx: "minus P (VFloat 0) (VFloat 3) = Inr nx" "num_sq P nx = Inr (NFloat 9)"
    by (cases "minus P (VFloat 0) (VFloat 3)") (simp_all add: then_e_simps)
  from y obtain ny where ny: "minus P (VFloat 0) (VFloat 4) = Inr ny" "num_sq P ny = Inr (NFloat 16)"
    by (cases "minus P (VFloat 0) (VFloat 4)") (simp_all add: then_e_simps)
  show ?thesis
    unfolding Star_distance_def
    by (simp add: assms(1) getattr_x [OF assms(2)] getattr_y [OF assms(3)]
        getattr_x [OF assms(4)] getattr_y [OF assms(5)] nx ny assms(10,11) math_sqrt_def
        then_e_simps Let_def del: getattr.simps)
qed

lemma distance_example_1_1:
  assumes "load_global G ''math'' = Inr m"
    and "Star_x flt a = Inr (VFloat 0)" and "Star_y flt a = Inr (VFloat 0)"
    and "Star_x flt b = Inr (VFloat 1)" and "Star_y flt b = Inr (VFloat 1)"
    and "double_sub P 0 1 = Inr (- 1)" and "double_sq P (- 1) = Inr 1"
    and "double_add P 1 1 = Inr 2" and "double_sqrt P 2 = Inr r" and "1 < r" and "r \<le> 2"
  shows "Star_distance (Suc d) G flt P g a b True = Inr (VInt 1)"
proof -
  have x: "then_e (minus P (VFloat 0) (VFloat 1)) (num_sq P) = Inr (NFloat 1)"
    by (simp add: sq_diff_double assms then_e_simps)
  from x obtain nx where nx: "minus P (VFloat 0) (VFloat 1) = Inr nx" "num_sq P nx = Inr (NFloat 1)"
    by (cases "minus P (VFloat 0) (VFloat 1)") (simp_all add: then_e_simps)
  have c: "\<lceil>r\<rceil> = 2"
    using assms(10,11) by (simp add: ceiling_eq_iff)
  show ?thesis
    unfolding Star_distance_def
    using assms(11)
    by (simp add: assms(1) getattr_x [OF assms(2)] getattr_y [OF assms(3)]
        getattr_x [OF assms(4)] getattr_y [OF assms(5)] nx assms(8,9) math_sqrt_def
        then_e_simps Let_def c del: getattr.simps)
qed

text \<open>
  C10. For every pair of stars whose coordinates read as floats, the distance from \<open>a\<close>
  to \<open>b\<close> is the distance from \<open>b\<close> to \<open>a\<close>, raw and as a level. It rests on one fact of
  double arithmetic, taken as a hypothesis on the primitives at the two pairs of
  coordinates: the square of a difference does not depend on the order of its operands
  (the difference only changes sign, and the square of a double is the square of its
  negation).
\<close>

theorem distance_symmetric:
  assumes "Star_x flt a = Inr (VFloat xa)" and "Star_x flt b = Inr (VFloat xb)"
    and "Star_y flt a = Inr (VFloat ya)" and "Star_y flt b = Inr (VFloat yb)"
    and "then_e (double_sub P xa xb) (double_sq P) = then_e (double_sub P xb xa) (double_sq P)"
    and "then_e (double_sub P ya yb) (double_sq P) = then_e (double_sub P yb ya) (double_sq P)"
  shows "Star_distance (Suc d) G flt P g a b as_level
       = Star_distance (Suc d) G flt P g b a as_level"
proof -
  have x: "then_e (minus P (VFloat xa) (VFloat xb)) (num_sq P)
         = then_e (minus P (VFloat xb) (VFloat xa)) (num_sq P)"
    by (simp add: sq_diff_double assms(5))
  have y: "then_e (minus P (VFloat ya) (VFloat yb)) (num_sq P)
         = then_e (minus P (VFloat yb) (VFloat ya)) (num_sq P)"
    by (simp add: sq_diff_double assms(6))
  have shape: "Star_distance (Suc d) G flt P g u v as_level =
     then_e (load_global G ''math'') (\<lambda>m.
     then_e (then_e (minus P (VFloat xu) (VFloat xv)) (num_sq P)) (\<lambda>dx2.
     then_e (then_e (minus P (VFloat yu) (VFloat yv)) (num_sq P)) (\<lambda>dy2.
     then_e (num_add P dx2 dy2) (\<lambda>s.
     then_e (math_sqrt P s) (\<lambda>dist.
       if \<not> as_level then Inr (VFloat dist)
       else
         then_e (load_global G ''math'') (\<lambda>m'.
           (let level = \<lceil>dist\<rceil> - 3
            in Inr (VInt (if level < 1 then 1 else level)))))))))"
    if "Star_x flt u = Inr (VFloat xu)" "Star_x flt v = Inr (VFloat xv)"
       "Star_y flt u = Inr (VFloat yu)" "Star_y flt v = Inr (VFloat yv)"
    for u v xu xv yu yv
    unfolding Star_distance_def
    by (simp add: getattr_x [OF that(1)] getattr_x [OF that(2)] getattr_y [OF that(3)]
        getattr_y [OF that(4)] then_e_def del: getattr.simps split: sum.splits)
  show ?thesis
    unfolding shape [OF assms(1,2,3,4)] shape [OF assms(2,1,4,3)] x y ..
qed

theorem distance_symmetric_witness:
  "Star_distance 1 galaxy_py sample_float sample_prims (galaxy fresh)
      \<lparr>data = sol\<rparr> \<lparr>data = origin\<rparr> False = Inr (VFloat (5 / 2))
   \<and> Star_distance 1 galaxy_py sample_float sample_prims (galaxy fresh)
      \<lparr>data = origin\<rparr> \<lparr>data = sol\<rparr> False = Inr (VFloat (5 / 2))
   \<and> Star_distance 1 galaxy_py sample_float sample_prims (galaxy fresh)
      \<lparr>data = far\<rparr> \<lparr>data = origin\<rparr> True
     = Star_distance 1 galaxy_py sample_float sample_prims (galaxy fresh)
      \<lparr>data = origin\<rparr> \<lparr>data = far\<rparr> True"
proof -
  have 1: "Star_distance 1 galaxy_py sample_float sample_prims (galaxy fresh)
      \<lparr>data = sol\<rparr> \<lparr>data = origin\<rparr> False = Inr (VFloat (5 / 2))"
    by (simp add: Star_distance_def Star_normal_def Star_x_def Star_y_def minus_def
        math_sqrt_def load_global_def then_e_def samples)
  have 2: "Star_distance 1 galaxy_py sample_float sample_prims (galaxy fresh)
      \<lparr>data = sol\<rparr> \<lparr>data = origin\<rparr> False
     = Star_distance 1 galaxy_py sample_float sample_prims (galaxy fresh)
      \<lparr>data = origin\<rparr> \<lparr>data = sol\<rparr> False"
    using distance_symmetric [of sample_float "\<lparr>data = sol\<rparr>" "3 / 2" "\<lparr>data = origin\<rparr>" 0 2 0
        sample_prims 0 galaxy_py "galaxy fresh" False]
    by (simp add: Star_x_def Star_y_def then_e_def samples)
  have 3: "Star_distance 1 galaxy_py sample_float sample_prims (galaxy fresh)
      \<lparr>data = far\<rparr> \<lparr>data = origin\<rparr> True
     = Star_distance 1 galaxy_py sample_float sample_prims (galaxy fresh)
      \<lparr>data = origin\<rparr> \<lparr>data = far\<rparr> True"
    using distance_symmetric [of sample_float "\<lparr>data = far\<rparr>" 3 "\<lparr>data = origin\<rparr>" 0 4 0
        sample_prims 0 galaxy_py "galaxy fresh" True]
    by (simp add: Star_x_def Star_y_def then_e_def samples)
  from 1 2 3 show ?thesis by simp
qed

end
